theory Spec2Isabelle
  imports Main
begin

section \<open>JavaScript values of the frontend\<close>

text \<open>
  The frontend is TypeScript. A field of type \<^verbatim>\<open>string | null\<close> is a
  \<^typ>\<open>string option\<close>. In a condition, and on the left of \<^verbatim>\<open>||\<close> and
  \<^verbatim>\<open>&&\<close>, JavaScript reads such a value as false when it is null and also when
  it is the empty string.
\<close>

definition truthy_string :: "string option \<Rightarrow> bool" where
  "truthy_string v = (case v of None \<Rightarrow> False | Some s \<Rightarrow> s \<noteq> [])"

text \<open>\<^verbatim>\<open>a || b\<close> for \<^verbatim>\<open>a: string | null\<close> and \<^verbatim>\<open>b: string\<close>.\<close>

definition or_string :: "string option \<Rightarrow> string \<Rightarrow> string" where
  "or_string a b = (case a of None \<Rightarrow> b | Some s \<Rightarrow> if s = [] then b else s)"

section \<open>lib/utils: getCountryFlag\<close>

text \<open>
  A flag emoji is a pair of regional-indicator symbols; it is written here by the two
  letters the pair stands for (U+1F1FA U+1F1F8 is \<open>Flag ''US''\<close>). The fallback of
  the source is the globe, U+1F30D.
\<close>

datatype emoji = Flag string | Globe

text \<open>
  \<^verbatim>\<open>flags\<close> is an object literal, so its prototype is Object.prototype, and
  \<^verbatim>\<open>flags[countryCode]\<close> is an ordinary property read: it gives the own entry
  when the key is one of the literal's, the member inherited from Object.prototype when
  the key names one (a function, or for \<^verbatim>\<open>__proto__\<close> the prototype object),
  and undefined otherwise.
\<close>

datatype js_value = JString emoji | JInherited string | JUndefined

definition flags :: "(string \<times> emoji) list" where
  "flags =
    [(''+1'', Flag ''US''), (''+91'', Flag ''IN''), (''+44'', Flag ''GB''),
     (''+61'', Flag ''AU''), (''+971'', Flag ''AE''), (''+92'', Flag ''PK''),
     (''+880'', Flag ''BD''), (''+86'', Flag ''CN''), (''+81'', Flag ''JP''),
     (''+49'', Flag ''DE''), (''+33'', Flag ''FR''), (''+39'', Flag ''IT''),
     (''+7'', Flag ''RU''), (''+55'', Flag ''BR''), (''+52'', Flag ''MX''),
     (''+966'', Flag ''SA''), (''+27'', Flag ''ZA''), (''+234'', Flag ''NG''),
     (''+254'', Flag ''KE''), (''+63'', Flag ''PH''), (''+84'', Flag ''VN''),
     (''+62'', Flag ''ID''), (''+60'', Flag ''MY''), (''+65'', Flag ''SG''),
     (''+66'', Flag ''TH'')]"

text \<open>The property names every object inherits from Object.prototype.\<close>

definition object_prototype_keys :: "string list" where
  "object_prototype_keys =
    [''constructor'', ''__defineGetter__'', ''__defineSetter__'', ''hasOwnProperty'',
     ''__lookupGetter__'', ''__lookupSetter__'', ''isPrototypeOf'',
     ''propertyIsEnumerable'', ''toString'', ''valueOf'', ''__proto__'',
     ''toLocaleString'']"

definition get_property :: "(string \<times> emoji) list \<Rightarrow> string \<Rightarrow> js_value" where
  "get_property obj key =
    (case map_of obj key of
       Some e \<Rightarrow> JString e
     | None \<Rightarrow> if key \<in> set object_prototype_keys then JInherited key else JUndefined)"

text \<open>An emoji is a non-empty string, a function or an object is truthy, undefined is not.\<close>

fun truthy :: "js_value \<Rightarrow> bool" where
  "truthy (JString e) = True"
| "truthy (JInherited k) = True"
| "truthy JUndefined = False"

text \<open>
  \<^verbatim>\<open>return countryCode ? flags[countryCode] || GLOBE : GLOBE;\<close>
\<close>

definition getCountryFlag :: "string option \<Rightarrow> js_value" where
  "getCountryFlag countryCode =
    (if truthy_string countryCode
     then (let v = get_property flags (the countryCode) in
           if truthy v then v else JString Globe)
     else JString Globe)"

section \<open>lib/api: the rows of the public interface\<close>

record group_ref =
  group_id :: string
  group_name :: string
  group_color :: string

text \<open>\<^verbatim>\<open>comparison_status: 'new' | 'existing' | 'unknown'\<close>\<close>

datatype comparison_status = New | Existing | Unknown


text \<open>The field \<^verbatim>\<open>id\<close> of the source is \<open>number_id\<close> here.\<close>

record ExtractedNumber =
  number_id :: string
  screenshot_id :: "string option"
  raw_number :: string
  normalized_number :: "string option"
  country_code :: "string option"
  country_name :: "string option"
  carrier :: "string option"
  number_type :: "string option"
  is_valid :: bool
  extracted_at :: string
  groups :: "group_ref list"
  comparison_status :: comparison_status


section \<open>components/NumbersTable\<close>

datatype badge = Valid | Invalid | NewBadge | ExistingBadge

text \<open>
  What React does with a value placed as the child of an element: a string is shown as
  text; a function is not shown (React warns and renders nothing in its place); an object
  that is not an element makes the render throw ("Objects are not valid as a React
  child"). Of the members inherited from Object.prototype only \<^verbatim>\<open>__proto__\<close> is an
  object (the prototype itself); the others are functions.
\<close>

datatype react_error = ObjectAsChild

definition inherited_is_object :: "string \<Rightarrow> bool" where
  "inherited_is_object key = (key = ''__proto__'')"

definition flag_child :: "js_value \<Rightarrow> react_error + emoji option" where
  "flag_child v =
    (case v of
       JString e \<Rightarrow> Inr (Some e)
     | JInherited key \<Rightarrow> if inherited_is_object key then Inl ObjectAsChild else Inr None
     | JUndefined \<Rightarrow> Inr None)"

text \<open>
  One table row, column by column: the number cell (its first line, then the optional
  lines for the raw number and the carrier), the country cell (the flag that is shown, if
  any), the status badges and the group chips. The selection checkbox and the action
  buttons hold no data of the row beyond its id and the text of the number cell and are
  left out.
\<close>

record table_row =
  row_key :: string
  number_text :: string
  number_sublines :: "string list"
  flag :: "emoji option"
  country_text :: string
  country_code_text :: "string option"
  badges :: "badge list"
  group_chips :: "string list"

text \<open>The cells of a row, given the flag that is shown.\<close>

definition row_cells :: "ExtractedNumber \<Rightarrow> emoji option \<Rightarrow> table_row" where
  "row_cells num shown_flag =
    \<lparr> row_key = number_id num,
      number_text = or_string (normalized_number num) (raw_number num),
      number_sublines =
        (if truthy_string (normalized_number num)
            \<and> raw_number num \<noteq> the (normalized_number num)
         then [raw_number num] else [])
        @ (if truthy_string (carrier num) then [the (carrier num)] else []),
      flag = shown_flag,
      country_text = or_string (country_name num) ''Unknown'',
      country_code_text = country_code num,
      badges =
        [if is_valid num then Valid else Invalid]
        @ (if comparison_status num = New then [NewBadge] else [])
        @ (if comparison_status num = Existing then [ExistingBadge] else []),
      group_chips = map group_name (groups num) \<rparr>"

text \<open>
  The \<^verbatim>\<open><tr>\<close> of one number: it throws when the result of getCountryFlag, the
  child of the flag \<^verbatim>\<open><span>\<close>, is an object.
\<close>

definition render_row :: "ExtractedNumber \<Rightarrow> react_error + table_row" where
  "render_row num =
    (case flag_child (getCountryFlag (country_code num)) of
       Inl e \<Rightarrow> Inl e
     | Inr shown_flag \<Rightarrow> Inr (row_cells num shown_flag))"

text \<open>\<^verbatim>\<open>numbers.map((num) => <tr ...>)\<close>: the first row that throws ends the render.\<close>

fun render_rows :: "ExtractedNumber list \<Rightarrow> react_error + table_row list" where
  "render_rows [] = Inr []"
| "render_rows (num # rest) =
     (case render_row num of
        Inl e \<Rightarrow> Inl e
      | Inr r \<Rightarrow> (case render_rows rest of
                    Inl e \<Rightarrow> Inl e
                  | Inr rs \<Rightarrow> Inr (r # rs)))"

text \<open>
  What the component shows: the spinner, the text "No numbers found", the table, or,
  when the render throws, no table at all.
\<close>

datatype table_view = Spinner | NoNumbers | Table "table_row list" | RenderFailed react_error

definition NumbersTable :: "ExtractedNumber list \<Rightarrow> bool \<Rightarrow> table_view" where
  "NumbersTable numbers loading =
    (if loading then Spinner
     else if length numbers = 0 then NoNumbers
     else (case render_rows numbers of
             Inl e \<Rightarrow> RenderFailed e
           | Inr rows \<Rightarrow> Table rows))"

section \<open>app/screenshots/[id]: the rows handed to the table\<close>





subsection \<open>Sample rows\<close>

text \<open>
  Rows of the interface type: a number that normalized, a candidate whose normalization
  failed, a row whose canonical form is the empty string, and a candidate whose
  normalization failed and whose country code is the string \<^verbatim>\<open>__proto__\<close>.
\<close>

definition sample_valid_number :: ExtractedNumber where
  "sample_valid_number =
    \<lparr> number_id = ''n1'', screenshot_id = Some ''s1'', raw_number = ''+1 (555) 123-4567'',
      normalized_number = Some ''+15551234567'', country_code = Some ''+1'',
      country_name = Some ''United States'', carrier = None, number_type = Some ''mobile'',
      is_valid = True, extracted_at = ''2024-01-01T00:00:00'', groups = [],
      comparison_status = Existing \<rparr>"

definition sample_rejected_number :: ExtractedNumber where
  "sample_rejected_number =
    \<lparr> number_id = ''n2'', screenshot_id = Some ''s1'', raw_number = ''12-34-56-78'',
      normalized_number = None, country_code = None, country_name = None, carrier = None,
      number_type = None, is_valid = False, extracted_at = ''2024-01-01T00:00:00'',
      groups = [], comparison_status = New \<rparr>"

definition sample_empty_canonical_number :: ExtractedNumber where
  "sample_empty_canonical_number =
    \<lparr> number_id = ''n3'', screenshot_id = Some ''s1'', raw_number = ''555 0100'',
      normalized_number = Some [], country_code = None, country_name = None, carrier = None,
      number_type = None, is_valid = False, extracted_at = ''2024-01-01T00:00:00'',
      groups = [], comparison_status = Unknown \<rparr>"

definition sample_proto_number :: ExtractedNumber where
  "sample_proto_number =
    \<lparr> number_id = ''n5'', screenshot_id = Some ''s1'', raw_number = ''99-88-77'',
      normalized_number = None, country_code = Some ''__proto__'', country_name = None,
      carrier = None, number_type = None, is_valid = False,
      extracted_at = ''2024-01-01T00:00:00'', groups = [], comparison_status = Unknown \<rparr>"

section \<open>lib/api: importZohoCsv\<close>

text \<open>A chosen file, by its name and its text.\<close>

record File =
  file_name :: string
  file_text :: string

record ImportResult =
  total_rows :: nat
  imported :: nat
  skipped :: nat
  duplicates :: nat
  invalid_phones :: nat

text \<open>
  The request importZohoCsv sends: the file as form data and the query parameters in the
  order they are set. \<^verbatim>\<open>phone_column\<close> is always set; each of the others only
  when its argument is truthy (\<^verbatim>\<open>if (nameColumn) params.set(...)\<close>).
\<close>

record import_request =
  request_file :: File
  request_params :: "(string \<times> string) list"

definition importZohoCsv_request ::
  "File \<Rightarrow> string \<Rightarrow> string option \<Rightarrow> string option \<Rightarrow> string option \<Rightarrow> import_request" where
  "importZohoCsv_request f phone_col name_col email_col company_col =
    \<lparr> request_file = f,
      request_params =
        [(''phone_column'', phone_col)]
        @ (if truthy_string name_col then [(''name_column'', the name_col)] else [])
        @ (if truthy_string email_col then [(''email_column'', the email_col)] else [])
        @ (if truthy_string company_col then [(''company_column'', the company_col)] else []) \<rparr>"

section \<open>app/import: the import page\<close>

record suggested_mapping =
  suggested_phone :: "string option"
  suggested_name :: "string option"
  suggested_email :: "string option"
  suggested_company :: "string option"
  suggested_zoho_id :: "string option"

text \<open>
  The preview the server returns. The page tests \<^verbatim>\<open>previewResult.suggested_mapping\<close>
  before it reads it, so the mapping is optional here (the field is \<open>suggested\<close>); a
  sample row gives a value per column name.
\<close>

record CSVPreview =
  columns :: "string list"
  sample_rows :: "(string \<times> string) list list"
  suggested :: "suggested_mapping option"

text \<open>
  The state hooks of ImportPage; the hook \<^verbatim>\<open>file\<close> of the source is
  \<open>selected_file\<close> here.
\<close>

record import_page =
  selected_file :: "File option"
  preview :: "CSVPreview option"
  loading :: bool
  importing :: bool
  result :: "ImportResult option"
  error :: "string option"
  phoneColumn :: string
  nameColumn :: string
  emailColumn :: string
  companyColumn :: string

definition initial_page :: import_page where
  "initial_page =
    \<lparr> selected_file = None, preview = None, loading = False, importing = False, result = None,
      error = None, phoneColumn = [], nameColumn = [], emailColumn = [],
      companyColumn = [] \<rparr>"

text \<open>\<^verbatim>\<open>s || undefined\<close> for a string \<open>s\<close>.\<close>

definition or_undefined :: "string \<Rightarrow> string option" where
  "or_undefined s = (if s = [] then None else Some s)"

text \<open>
  onDrop is asynchronous. Its first part runs at the drop, up to
  \<^verbatim>\<open>await previewCsvMapping(csvFile)\<close>: it sets the file, the loading flag, and
  clears the error and the result. The result is the new state and the preview requests
  that were sent.
\<close>

definition onDrop_start :: "File list \<Rightarrow> import_page \<Rightarrow> import_page \<times> File list" where
  "onDrop_start acceptedFiles st =
    (case acceptedFiles of
       [] \<Rightarrow> (st, [])
     | csvFile # rest \<Rightarrow>
         (st\<lparr> selected_file := Some csvFile, loading := True, error := None, result := None \<rparr>,
          [csvFile]))"

text \<open>
  The second part of onDrop runs when the preview request is answered, on the state the
  page has then: \<open>None\<close> is a call that threw (the request failed or the response was not
  ok), which sets the error; a preview is stored and its suggested columns are chosen.
  Either way the loading flag is cleared last.
\<close>

definition onDrop_answer :: "CSVPreview option \<Rightarrow> import_page \<Rightarrow> import_page" where
  "onDrop_answer previewResult st =
    (case previewResult of
       None \<Rightarrow> st\<lparr> error := Some ''Failed to read CSV file'', loading := False \<rparr>
     | Some p \<Rightarrow>
         (let st2 = st\<lparr> preview := Some p \<rparr>;
              st3 = (case suggested p of
                       None \<Rightarrow> st2
                     | Some m \<Rightarrow>
                         st2\<lparr> phoneColumn := or_string (suggested_phone m) [],
                              nameColumn := or_string (suggested_name m) [],
                              emailColumn := or_string (suggested_email m) [],
                              companyColumn := or_string (suggested_company m) [] \<rparr>)
          in st3\<lparr> loading := False \<rparr>))"

text \<open>
  handleImport is asynchronous too. Its first part runs at the click, up to
  \<^verbatim>\<open>await importZohoCsv(...)\<close>: it returns at once when there is no file or no phone
  column, and otherwise sets the importing flag, clears the error and sends the request.
  The result is the new state and the import requests that were sent.
\<close>

definition handleImport_start :: "import_page \<Rightarrow> import_page \<times> import_request list" where
  "handleImport_start st =
    (if selected_file st = None \<or> phoneColumn st = [] then (st, [])
     else
       (st\<lparr> importing := True, error := None \<rparr>,
        [importZohoCsv_request (the (selected_file st)) (phoneColumn st)
           (or_undefined (nameColumn st)) (or_undefined (emailColumn st))
           (or_undefined (companyColumn st))]))"

text \<open>
  The second part of handleImport runs when the import request is answered, on the state
  the page has then: the counters are stored as the result, or, for a call that threw
  (\<open>None\<close>), the error is set; the importing flag is cleared last.
\<close>

definition handleImport_answer :: "ImportResult option \<Rightarrow> import_page \<Rightarrow> import_page" where
  "handleImport_answer answer st =
    (case answer of
       Some importResult \<Rightarrow> st\<lparr> result := Some importResult, importing := False \<rparr>
     | None \<Rightarrow>
         st\<lparr> error := Some ''Import failed. Please check your CSV file and try again.'',
             importing := False \<rparr>)"

definition resetForm :: "import_page \<Rightarrow> import_page" where
  "resetForm st =
    st\<lparr> selected_file := None, preview := None, result := None, error := None, phoneColumn := [],
        nameColumn := [], emailColumn := [], companyColumn := [] \<rparr>"

text \<open>
  The three cards of the page: the upload zone is rendered when
  \<^verbatim>\<open>!preview && !result\<close>, the column mapping card, with the four selects, Cancel
  and the import button, when \<^verbatim>\<open>preview && !result\<close>, and the result card, with
  Import More, when \<^verbatim>\<open>result\<close>.
\<close>

definition upload_zone_shown :: "import_page \<Rightarrow> bool" where
  "upload_zone_shown st = (preview st = None \<and> result st = None)"

definition mapping_card_shown :: "import_page \<Rightarrow> bool" where
  "mapping_card_shown st = (preview st \<noteq> None \<and> result st = None)"

definition result_card_shown :: "import_page \<Rightarrow> bool" where
  "result_card_shown st = (result st \<noteq> None)"

text \<open>
  The page together with the requests that are sent and not yet answered. What can
  happen: a drop on the upload zone (taken only while the page is not loading, when the
  zone takes pointer events), the answer to a preview request, a choice in one of the
  four selects (the empty option or a column of the preview), a click on the import
  button (taken only while no import is running; a disabled button and the handler's own
  test refuse alike), the answer to an import request, a click on Cancel or Import More.
  An event whose control is not shown, and an answer to a request that was not sent,
  leave everything as it is. Answers may come in any order and at any later time.
\<close>

record page_run =
  page :: import_page
  previews_in_flight :: nat
  imports_in_flight :: nat

definition initial_run :: page_run where
  "initial_run = \<lparr> page = initial_page, previews_in_flight = 0, imports_in_flight = 0 \<rparr>"

datatype event =
    Drop "File list"
  | PreviewAnswer "CSVPreview option"
  | SelectPhone string
  | SelectName string
  | SelectEmail string
  | SelectCompany string
  | ClickImport
  | ImportAnswer "ImportResult option"
  | ClickReset

text \<open>The options of a select: \<^verbatim>\<open>Select column...\<close> (the empty value) and the columns of the preview.\<close>

definition is_option :: "import_page \<Rightarrow> string \<Rightarrow> bool" where
  "is_option st c =
    (mapping_card_shown st \<and> (c = [] \<or> c \<in> set (columns (the (preview st)))))"

fun fire :: "event \<Rightarrow> page_run \<Rightarrow> page_run" where
  "fire (Drop acceptedFiles) r =
     (if upload_zone_shown (page r) \<and> \<not> loading (page r)
      then r\<lparr> page := fst (onDrop_start acceptedFiles (page r)),
               previews_in_flight :=
                 previews_in_flight r + length (snd (onDrop_start acceptedFiles (page r))) \<rparr>
      else r)"
| "fire (PreviewAnswer answer) r =
     (if previews_in_flight r = 0 then r
      else r\<lparr> page := onDrop_answer answer (page r),
               previews_in_flight := previews_in_flight r - 1 \<rparr>)"
| "fire (SelectPhone c) r =
     (if is_option (page r) c then r\<lparr> page := (page r)\<lparr> phoneColumn := c \<rparr> \<rparr> else r)"
| "fire (SelectName c) r =
     (if is_option (page r) c then r\<lparr> page := (page r)\<lparr> nameColumn := c \<rparr> \<rparr> else r)"
| "fire (SelectEmail c) r =
     (if is_option (page r) c then r\<lparr> page := (page r)\<lparr> emailColumn := c \<rparr> \<rparr> else r)"
| "fire (SelectCompany c) r =
     (if is_option (page r) c then r\<lparr> page := (page r)\<lparr> companyColumn := c \<rparr> \<rparr> else r)"
| "fire ClickImport r =
     (if mapping_card_shown (page r) \<and> \<not> importing (page r)
      then r\<lparr> page := fst (handleImport_start (page r)),
               imports_in_flight :=
                 imports_in_flight r + length (snd (handleImport_start (page r))) \<rparr>
      else r)"
| "fire (ImportAnswer answer) r =
     (if imports_in_flight r = 0 then r
      else r\<lparr> page := handleImport_answer answer (page r),
               imports_in_flight := imports_in_flight r - 1 \<rparr>)"
| "fire ClickReset r =
     (if mapping_card_shown (page r) \<or> result_card_shown (page r)
      then r\<lparr> page := resetForm (page r) \<rparr> else r)"

fun run :: "event list \<Rightarrow> page_run \<Rightarrow> page_run" where
  "run [] r = r"
| "run (e # es) r = run es (fire e r)"

subsection \<open>Sample states of the page\<close>

definition sample_file :: File where
  "sample_file = \<lparr> file_name = ''contacts.csv'', file_text = ''Mobile,Full Name'' \<rparr>"

definition sample_preview :: CSVPreview where
  "sample_preview =
    \<lparr> columns = [''Mobile'', ''Full Name''], sample_rows = [],
      suggested = Some \<lparr> suggested_phone = Some ''Mobile'', suggested_name = None,
                         suggested_email = None, suggested_company = None,
                         suggested_zoho_id = None \<rparr> \<rparr>"

definition sample_result :: ImportResult where
  "sample_result =
    \<lparr> total_rows = 3, imported = 1, skipped = 0, duplicates = 1, invalid_phones = 1 \<rparr>"

text \<open>The page after a file was dropped and its preview arrived.\<close>

definition mapped_page :: import_page where
  "mapped_page =
    \<lparr> selected_file = Some sample_file, preview = Some sample_preview, loading = False,
      importing = False, result = None, error = None, phoneColumn = ''Mobile'',
      nameColumn = [], emailColumn = [], companyColumn = [] \<rparr>"

definition mapped_trace :: "event list" where
  "mapped_trace = [Drop [sample_file], PreviewAnswer (Some sample_preview)]"

text \<open>
  A page whose preview arrived late: a file is dropped and previewed, the import is
  started and then cancelled, a second file is dropped, the first import is answered and
  Import More is clicked, and only then the preview of the second file arrives. The
  mapping card is shown with the suggested phone column, and there is no file.
\<close>

definition stale_page :: import_page where
  "stale_page =
    \<lparr> selected_file = None, preview = Some sample_preview, loading = False,
      importing = False, result = None, error = None, phoneColumn = ''Mobile'',
      nameColumn = [], emailColumn = [], companyColumn = [] \<rparr>"

definition stale_trace :: "event list" where
  "stale_trace =
    [Drop [sample_file], PreviewAnswer (Some sample_preview), ClickImport, ClickReset,
     Drop [sample_file], ImportAnswer (Some sample_result), ClickReset,
     PreviewAnswer (Some sample_preview)]"

section \<open>The contact import\<close>

text \<open>\<^verbatim>\<open>ExistingContact\<close> of lib/api; its fields carry the prefix \<open>contact_\<close> here.\<close>

record ExistingContact =
  contact_id :: string
  contact_normalized_number :: string
  contact_raw_number :: "string option"
  contact_name :: "string option"
  contact_email :: "string option"
  contact_company :: "string option"
  contact_source :: string
  contact_zoho_id :: "string option"
  contact_created_at :: string

text \<open>
  The column mapping as importZohoCsv sends it in the query: the phone column, and the
  optional columns for name, email and company.
\<close>

record column_mapping =
  phone_column :: string
  name_column :: "string option"
  email_column :: "string option"
  company_column :: "string option"

text \<open>
  Modelled from the spec: the four ways the import of section 4.4 counts a data row. The
  import handler (\<^verbatim>\<open>/api/import/zoho-csv\<close>) is server code and is not among the
  frontend sources; this and the definitions below that start the same way follow the
  words of section 4.4.
\<close>

datatype row_outcome = RowImported | RowSkipped | RowDuplicate | RowInvalidPhone

text \<open>
  Modelled from the spec: the value of a data row in the column of a given header name
  (the import handler is missing); there is none when the header has no such column or
  the row is too short.
\<close>

definition cell :: "string list \<Rightarrow> string list \<Rightarrow> string \<Rightarrow> string option" where
  "cell header row col = map_of (zip header row) col"

text \<open>
  Modelled from the spec: the value of an optional role (the import handler is missing);
  an unmapped role and an empty field both give no value.
\<close>

definition optional_cell :: "string list \<Rightarrow> string list \<Rightarrow> string option \<Rightarrow> string option" where
  "optional_cell header row col =
    (case col of
       None \<Rightarrow> None
     | Some c \<Rightarrow> (case cell header row c of
                   None \<Rightarrow> None
                 | Some v \<Rightarrow> if v = [] then None else Some v))"

text \<open>
  Modelled from the spec: a structurally readable row (the import handler is missing).
  Section 4.4 names the unreadable rows: "wrong column count, empty required field", and
  the phone is the one required field.
\<close>

definition readable :: "string list \<Rightarrow> column_mapping \<Rightarrow> string list \<Rightarrow> bool" where
  "readable header mapping row =
    (length row = length header \<and> truthy_string (cell header row (phone_column mapping)))"

text \<open>
  Modelled from the spec: the upsert key of section 4.4, "normalized number + source
  label", as a test on a contact of the store (the import handler is missing).
\<close>

definition has_key :: "string \<Rightarrow> string \<Rightarrow> ExistingContact \<Rightarrow> bool" where
  "has_key number source_label c =
    (contact_normalized_number c = number \<and> contact_source c = source_label)"

text \<open>
  Modelled from the spec: the outcome of one data row (the import handler is missing).
  The phone number is normalized by the phone parser, an external capability, here the
  argument \<open>parse_phone\<close>, which gives the canonical form or fails. An unreadable row is
  skipped; a row whose phone fails to normalize is an invalid phone; a row whose
  normalized number and source label are in the store is a duplicate; every other row is
  imported.
\<close>

definition classify_row ::
  "(string \<Rightarrow> string option) \<Rightarrow> string list \<Rightarrow> column_mapping \<Rightarrow> string
     \<Rightarrow> ExistingContact list \<Rightarrow> string list \<Rightarrow> row_outcome" where
  "classify_row parse_phone header mapping source_label store row =
    (if readable header mapping row
     then (case parse_phone (the (cell header row (phone_column mapping))) of
             None \<Rightarrow> RowInvalidPhone
           | Some number \<Rightarrow>
               if find (has_key number source_label) store = None
               then RowImported else RowDuplicate)
     else RowSkipped)"

text \<open>
  Modelled from the spec: the running totals of section 4.4 (the import handler is
  missing). Every data row adds one to \<open>total_rows\<close> and one to the counter of its
  outcome.
\<close>

fun count_row :: "row_outcome \<Rightarrow> ImportResult \<Rightarrow> ImportResult" where
  "count_row RowImported r = r\<lparr> total_rows := total_rows r + 1, imported := imported r + 1 \<rparr>"
| "count_row RowSkipped r = r\<lparr> total_rows := total_rows r + 1, skipped := skipped r + 1 \<rparr>"
| "count_row RowDuplicate r = r\<lparr> total_rows := total_rows r + 1, duplicates := duplicates r + 1 \<rparr>"
| "count_row RowInvalidPhone r =
     r\<lparr> total_rows := total_rows r + 1, invalid_phones := invalid_phones r + 1 \<rparr>"

text \<open>
  Modelled from the spec: a duplicate "updates non-null fields only" (the import handler
  is missing): a field the row gives replaces the stored one, a field it does not give
  leaves it.
\<close>

definition prefer_new :: "string option \<Rightarrow> string option \<Rightarrow> string option" where
  "prefer_new new old = (case new of None \<Rightarrow> old | Some v \<Rightarrow> Some v)"

text \<open>
  Modelled from the spec: the update of a stored contact by a duplicate row (the import
  handler is missing).
\<close>

definition update_contact ::
  "string list \<Rightarrow> column_mapping \<Rightarrow> string list \<Rightarrow> ExistingContact \<Rightarrow> ExistingContact" where
  "update_contact header mapping row c =
    c\<lparr> contact_name := prefer_new (optional_cell header row (name_column mapping)) (contact_name c),
       contact_email := prefer_new (optional_cell header row (email_column mapping)) (contact_email c),
       contact_company :=
         prefer_new (optional_cell header row (company_column mapping)) (contact_company c) \<rparr>"

text \<open>
  Modelled from the spec: the contact an imported row adds (the import handler is
  missing). The spec does not say how ids are made; here the id of the \<open>n\<close>-th contact
  is \<open>n\<close> letters long.
\<close>

definition new_contact ::
  "string list \<Rightarrow> column_mapping \<Rightarrow> string \<Rightarrow> string \<Rightarrow> nat \<Rightarrow> string \<Rightarrow> string list
     \<Rightarrow> ExistingContact" where
  "new_contact header mapping source_label now n number row =
    \<lparr> contact_id = replicate n (CHR ''i''),
      contact_normalized_number = number,
      contact_raw_number = cell header row (phone_column mapping),
      contact_name = optional_cell header row (name_column mapping),
      contact_email = optional_cell header row (email_column mapping),
      contact_company = optional_cell header row (company_column mapping),
      contact_source = source_label,
      contact_zoho_id = None,
      contact_created_at = now \<rparr>"

text \<open>
  Modelled from the spec: what a row does to the contact store (the import handler is
  missing). An imported row adds a contact; a duplicate updates the contact with its
  key; a skipped row and an invalid phone leave the store as it is.
\<close>

definition store_row ::
  "(string \<Rightarrow> string option) \<Rightarrow> string list \<Rightarrow> column_mapping \<Rightarrow> string \<Rightarrow> string
     \<Rightarrow> ExistingContact list \<Rightarrow> string list \<Rightarrow> ExistingContact list" where
  "store_row parse_phone header mapping source_label now store row =
    (case classify_row parse_phone header mapping source_label store row of
       RowImported \<Rightarrow>
         store @ [new_contact header mapping source_label now (length store)
                    (the (parse_phone (the (cell header row (phone_column mapping))))) row]
     | RowDuplicate \<Rightarrow>
         map (\<lambda>c. if has_key (the (parse_phone (the (cell header row (phone_column mapping)))))
                        source_label c
                  then update_contact header mapping row c else c) store
     | RowSkipped \<Rightarrow> store
     | RowInvalidPhone \<Rightarrow> store)"

text \<open>
  Modelled from the spec: the counters before the first row (the import handler is
  missing).
\<close>

definition no_rows :: ImportResult where
  "no_rows = \<lparr> total_rows = 0, imported = 0, skipped = 0, duplicates = 0, invalid_phones = 0 \<rparr>"

text \<open>
  Modelled from the spec: the loop over the data rows (the import handler is missing),
  which carries the counters and the store; a row failure is counted and "never aborts
  the whole import" (section 7).
\<close>

fun import_rows ::
  "(string \<Rightarrow> string option) \<Rightarrow> string list \<Rightarrow> column_mapping \<Rightarrow> string \<Rightarrow> string
     \<Rightarrow> string list list \<Rightarrow> ImportResult \<times> ExistingContact list
     \<Rightarrow> ImportResult \<times> ExistingContact list" where
  "import_rows parse_phone header mapping source_label now [] acc = acc"
| "import_rows parse_phone header mapping source_label now (row # rest) acc =
     import_rows parse_phone header mapping source_label now rest
       (count_row (classify_row parse_phone header mapping source_label (snd acc) row) (fst acc),
        store_row parse_phone header mapping source_label now (snd acc) row)"

text \<open>
  Modelled from the spec: the outcomes of the data rows, in order, each against the store
  as the rows before it left it (the import handler is missing).
\<close>

fun row_outcomes ::
  "(string \<Rightarrow> string option) \<Rightarrow> string list \<Rightarrow> column_mapping \<Rightarrow> string \<Rightarrow> string
     \<Rightarrow> string list list \<Rightarrow> ExistingContact list \<Rightarrow> row_outcome list" where
  "row_outcomes parse_phone header mapping source_label now [] store = []"
| "row_outcomes parse_phone header mapping source_label now (row # rest) store =
     classify_row parse_phone header mapping source_label store row
     # row_outcomes parse_phone header mapping source_label now rest
         (store_row parse_phone header mapping source_label now store row)"

text \<open>
  Modelled from the spec: one import run (the import handler is missing): the data rows
  of the file against the contact store, from counters that are all zero.
\<close>

definition import_csv ::
  "(string \<Rightarrow> string option) \<Rightarrow> string list \<Rightarrow> column_mapping \<Rightarrow> string \<Rightarrow> string
     \<Rightarrow> string list list \<Rightarrow> ExistingContact list \<Rightarrow> ImportResult \<times> ExistingContact list" where
  "import_csv parse_phone header mapping source_label now data_rows store =
    import_rows parse_phone header mapping source_label now data_rows (no_rows, store)"

subsection \<open>A sample file\<close>

text \<open>
  A stand-in for the phone parser, for the sample only: it accepts a string that starts
  with a plus sign and has eleven or more characters.
\<close>

definition sample_parser :: "string \<Rightarrow> string option" where
  "sample_parser s = (if take 1 s = ''+'' \<and> 11 \<le> length s then Some s else None)"

definition sample_mapping :: column_mapping where
  "sample_mapping =
    \<lparr> phone_column = ''Mobile'', name_column = Some ''Full Name'', email_column = None,
      company_column = None \<rparr>"

definition sample_data_rows :: "string list list" where
  "sample_data_rows =
    [[''+15551234567'', ''Ada''],
     [''+15551234567'', ''Ada L''],
     [''12345'', ''Bob''],
     [''+15550000000''],
     ['''', ''Eve'']]"

section \<open>The number store\<close>

text \<open>
  Modelled from the spec: the test for the dedup key of section 4.3, "(screenshot id,
  canonical form) when canonical form is non-null". The Deduplicator and the number
  store it writes are server code and are not among the frontend sources; this and the
  definitions below that start the same way follow the words of sections 3 and 4.3. The
  store is the list of its rows, oldest first.
\<close>

definition same_key :: "string \<Rightarrow> string \<Rightarrow> ExtractedNumber \<Rightarrow> bool" where
  "same_key sid canonical row =
    (screenshot_id row = Some sid \<and> normalized_number row = Some canonical)"

text \<open>
  Modelled from the spec: a row has a dedup key when it has a screenshot id and a
  canonical form (the Deduplicator is missing).
\<close>

definition keyed :: "ExtractedNumber \<Rightarrow> bool" where
  "keyed row = (screenshot_id row \<noteq> None \<and> normalized_number row \<noteq> None)"

text \<open>Modelled from the spec: the dedup key of a row that has one (the Deduplicator is missing).\<close>

definition dedup_key :: "ExtractedNumber \<Rightarrow> string \<times> string" where
  "dedup_key row = (the (screenshot_id row), the (normalized_number row))"

text \<open>Modelled from the spec: the dedup keys of the rows of a store, in order (the Deduplicator is missing).\<close>

definition dedup_keys :: "ExtractedNumber list \<Rightarrow> (string \<times> string) list" where
  "dedup_keys store = map dedup_key (filter keyed store)"

text \<open>
  Modelled from the spec: the Deduplicator (missing from the sources), section 4.3:
  "given a newly normalized record for a specific screenshot, decide whether to insert a
  new ExtractedNumber or return the existing one". A record with a canonical form is
  looked up by its key and inserted only when no row has the key; a record with no
  canonical form (a rejected candidate) is always inserted. The result is the row for the
  record and the store.
\<close>

definition dedup_insert ::
  "string \<Rightarrow> ExtractedNumber \<Rightarrow> ExtractedNumber list \<Rightarrow> ExtractedNumber \<times> ExtractedNumber list" where
  "dedup_insert sid candidate store =
    (let row = candidate\<lparr> screenshot_id := Some sid \<rparr> in
     case normalized_number candidate of
       None \<Rightarrow> (row, store @ [row])
     | Some canonical \<Rightarrow>
         (case find (same_key sid canonical) store of
            Some existing \<Rightarrow> (existing, store)
          | None \<Rightarrow> (row, store @ [row])))"

text \<open>
  Modelled from the spec: the deletion of a screenshot (server code, missing); section 3,
  an ExtractedNumber is "deleted when its source screenshot is deleted".
\<close>

definition delete_screenshot :: "string \<Rightarrow> ExtractedNumber list \<Rightarrow> ExtractedNumber list" where
  "delete_screenshot sid store = filter (\<lambda>row. screenshot_id row \<noteq> Some sid) store"

text \<open>
  Modelled from the spec: the operations that add or remove rows of the number store
  (server code, missing); section 3, a row is "created by the pipeline, mutated only by
  group (re)assignment, deleted when its source screenshot is deleted".
\<close>

datatype store_op = Extract string ExtractedNumber | DeleteScreenshot string

text \<open>Modelled from the spec: one operation on the number store (server code, missing).\<close>

fun apply_op :: "store_op \<Rightarrow> ExtractedNumber list \<Rightarrow> ExtractedNumber list" where
  "apply_op (Extract sid candidate) store = snd (dedup_insert sid candidate store)"
| "apply_op (DeleteScreenshot sid) store = delete_screenshot sid store"

text \<open>Modelled from the spec: a sequence of operations on the number store (server code, missing).\<close>

fun run_ops :: "store_op list \<Rightarrow> ExtractedNumber list \<Rightarrow> ExtractedNumber list" where
  "run_ops [] store = store"
| "run_ops (op # ops) store = run_ops ops (apply_op op store)"

text \<open>
  Modelled from the spec: the states the number store reaches, each from the empty store
  by a sequence of operations (server code, missing).
\<close>

definition reached :: "store_op list \<Rightarrow> ExtractedNumber list" where
  "reached ops = run_ops ops []"

subsection \<open>Sample extractions\<close>

definition sample_second_number :: ExtractedNumber where
  "sample_second_number =
    sample_valid_number\<lparr> number_id := ''n4'', raw_number := ''+44 20 7946 0958'',
      normalized_number := Some ''+442079460958'', country_code := Some ''+44'',
      country_name := Some ''United Kingdom'' \<rparr>"

definition sample_ops :: "store_op list" where
  "sample_ops =
    [Extract ''s1'' sample_valid_number,
     Extract ''s1'' sample_second_number,
     Extract ''s1'' sample_valid_number,
     Extract ''s1'' sample_rejected_number,
     Extract ''s1'' sample_rejected_number,
     Extract ''s2'' sample_valid_number]"

section \<open>The country groups\<close>
















text \<open>
  Modelled from the spec: the country codes observed among the rows with non-null
  canonical form (section 8, the group invariant), in the order of the rows.
\<close>

definition observed_codes :: "ExtractedNumber list \<Rightarrow> string list" where
  "observed_codes numbers =
    map (\<lambda>row. the (country_code row))
      (filter (\<lambda>row. normalized_number row \<noteq> None \<and> country_code row \<noteq> None) numbers)"

subsection \<open>Sample extractions with groups\<close>


section \<open>Properties of getCountryFlag\<close>

lemma getCountryFlag_null: "getCountryFlag None = JString Globe"
  by (simp add: getCountryFlag_def truthy_string_def)

lemma getCountryFlag_empty: "getCountryFlag (Some []) = JString Globe"
  by (simp add: getCountryFlag_def truthy_string_def)

lemma flags_keys_nonempty: "map_of flags [] = None"
  by (simp add: flags_def)

lemma getCountryFlag_mapped:
  assumes "map_of flags c = Some e"
  shows "getCountryFlag (Some c) = JString e"
proof -
  from assms flags_keys_nonempty have "c \<noteq> []" by auto
  with assms show ?thesis
    by (simp add: getCountryFlag_def truthy_string_def get_property_def)
qed

lemma getCountryFlag_unmapped:
  assumes "map_of flags c = None" and "c \<notin> set object_prototype_keys"
  shows "getCountryFlag (Some c) = JString Globe"
  using assms by (simp add: getCountryFlag_def truthy_string_def get_property_def)

text \<open>
  C10. The claim: for every country-code argument getCountryFlag returns a string, the
  globe for any unmapped code. At the argument \<^verbatim>\<open>'constructor'\<close>, which is not a
  key of the table, the property read finds the member inherited from Object.prototype,
  which is truthy, and the function returns it: the result is not a string and not the
  globe.
\<close>

theorem getCountryFlag_constructor:
  "map_of flags ''constructor'' = None
   \<and> getCountryFlag (Some ''constructor'') = JInherited ''constructor''
   \<and> getCountryFlag (Some ''constructor'') \<noteq> JString Globe"
  by (simp add: getCountryFlag_def truthy_string_def get_property_def flags_def
      object_prototype_keys_def)

section \<open>Properties of NumbersTable\<close>

lemma getCountryFlag_inherited:
  "getCountryFlag cc = JInherited key \<Longrightarrow> cc = Some key"
  by (cases cc)
     (auto simp add: getCountryFlag_def truthy_string_def get_property_def Let_def
           split: option.splits if_splits)

lemma flag_child_shown:
  assumes "cc \<noteq> Some ''__proto__''"
  shows "\<exists>shown. flag_child (getCountryFlag cc) = Inr shown"
proof (cases "getCountryFlag cc")
  case (JString e)
  then show ?thesis by (simp add: flag_child_def)
next
  case (JInherited key)
  then have "cc = Some key" by (rule getCountryFlag_inherited)
  with assms have "key \<noteq> ''__proto__''" by auto
  with JInherited show ?thesis by (simp add: flag_child_def inherited_is_object_def)
next
  case JUndefined
  then show ?thesis by (simp add: flag_child_def)
qed

lemma flag_child_proto: "flag_child (getCountryFlag (Some ''__proto__'')) = Inl ObjectAsChild"
  by (simp add: flag_child_def inherited_is_object_def getCountryFlag_def truthy_string_def
      get_property_def flags_def object_prototype_keys_def)

lemma render_row_shown:
  "country_code num \<noteq> Some ''__proto__'' \<Longrightarrow> \<exists>shown. render_row num = Inr (row_cells num shown)"
  using flag_child_shown [of "country_code num"] by (auto simp add: render_row_def)

lemma render_row_proto:
  "country_code num = Some ''__proto__'' \<Longrightarrow> render_row num = Inl ObjectAsChild"
  by (simp add: render_row_def flag_child_proto)

lemma render_row_cells:
  "render_row num = Inr r \<Longrightarrow> \<exists>shown. r = row_cells num shown"
  by (auto simp add: render_row_def split: sum.splits)

lemma render_rows_cells:
  "render_rows numbers = Inr rows \<Longrightarrow>
     length rows = length numbers
     \<and> (\<forall>i < length numbers. \<exists>shown. rows ! i = row_cells (numbers ! i) shown)"
proof (induction numbers arbitrary: rows)
  case Nil
  then show ?case by simp
next
  case (Cons num rest)
  from Cons.prems obtain r rs where
    r: "render_row num = Inr r" and rs: "render_rows rest = Inr rs" and rows: "rows = r # rs"
    by (auto split: sum.splits)
  from r obtain shown where shown: "r = row_cells num shown"
    using render_row_cells by blast
  from Cons.IH [OF rs] have len: "length rs = length rest"
    and cells: "\<forall>i < length rest. \<exists>shown. rs ! i = row_cells (rest ! i) shown"
    by simp_all
  show ?case
  proof (intro conjI allI impI)
    show "length rows = length (num # rest)" using rows len by simp
  next
    fix i
    assume "i < length (num # rest)"
    then show "\<exists>shown. rows ! i = row_cells ((num # rest) ! i) shown"
      using rows shown cells by (cases i) auto
  qed
qed

lemma render_rows_shown:
  "(\<forall>num \<in> set numbers. country_code num \<noteq> Some ''__proto__'')
   \<Longrightarrow> \<exists>rows. render_rows numbers = Inr rows"
proof (induction numbers)
  case Nil
  then show ?case by simp
next
  case (Cons num rest)
  then obtain shown where "render_row num = Inr (row_cells num shown)"
    using render_row_shown [of num] by auto
  moreover from Cons obtain rs where "render_rows rest = Inr rs" by auto
  ultimately show ?case by simp
qed

lemma render_rows_proto:
  "(\<exists>num \<in> set numbers. country_code num = Some ''__proto__'')
   \<Longrightarrow> render_rows numbers = Inl ObjectAsChild"
proof (induction numbers)
  case Nil
  then show ?case by simp
next
  case (Cons num rest)
  show ?case
  proof (cases "country_code num = Some ''__proto__''")
    case True
    then show ?thesis by (simp add: render_row_proto)
  next
    case False
    with Cons.prems have "\<exists>n \<in> set rest. country_code n = Some ''__proto__''" by auto
    with Cons.IH have "render_rows rest = Inl ObjectAsChild" by simp
    moreover from False obtain shown where "render_row num = Inr (row_cells num shown)"
      using render_row_shown [of num] by auto
    ultimately show ?thesis by simp
  qed
qed

lemma number_text_canonical:
  "normalized_number num = Some s \<Longrightarrow> s \<noteq> [] \<Longrightarrow> number_text (row_cells num shown) = s"
  by (simp add: row_cells_def or_string_def)

lemma number_text_raw:
  "normalized_number num = None \<or> normalized_number num = Some []
   \<Longrightarrow> number_text (row_cells num shown) = raw_number num"
  by (auto simp add: row_cells_def or_string_def)

lemma sample_valid_row:
  "render_row sample_valid_number = Inr (row_cells sample_valid_number (Some (Flag ''US'')))"
  by (simp add: render_row_def flag_child_def getCountryFlag_def truthy_string_def
      get_property_def flags_def sample_valid_number_def)


lemma sample_empty_canonical_row:
  "render_row sample_empty_canonical_number
   = Inr (row_cells sample_empty_canonical_number (Some Globe))"
  by (simp add: render_row_def flag_child_def getCountryFlag_def truthy_string_def
      sample_empty_canonical_number_def)

lemma sample_proto_row: "render_row sample_proto_number = Inl ObjectAsChild"
  by (rule render_row_proto) (simp add: sample_proto_number_def)

text \<open>
  C9, as the claim states it: the number cell shows the canonical form whenever it is
  non-null, and a row whose normalization failed is never dropped from the table. A row
  whose canonical form is the empty string, which is not null, is shown by its raw text.
  A list that holds a row with the country code \<^verbatim>\<open>__proto__\<close>, here a candidate
  whose normalization failed, makes the render throw, and no table and no row is shown.
\<close>

theorem number_cell_empty_canonical_counterexample:
  "normalized_number sample_empty_canonical_number \<noteq> None
   \<and> NumbersTable [sample_empty_canonical_number] False
       = Table [row_cells sample_empty_canonical_number (Some Globe)]
   \<and> number_text (row_cells sample_empty_canonical_number (Some Globe))
       \<noteq> the (normalized_number sample_empty_canonical_number)
   \<and> number_text (row_cells sample_empty_canonical_number (Some Globe)) = ''555 0100''
   \<and> normalized_number sample_proto_number = None
   \<and> NumbersTable [sample_valid_number, sample_proto_number] False = RenderFailed ObjectAsChild"
proof -
  have a: "normalized_number sample_empty_canonical_number \<noteq> None"
    by (simp add: sample_empty_canonical_number_def)
  have b: "NumbersTable [sample_empty_canonical_number] False
       = Table [row_cells sample_empty_canonical_number (Some Globe)]"
    by (simp add: NumbersTable_def sample_empty_canonical_row)
  have c: "number_text (row_cells sample_empty_canonical_number (Some Globe)) = ''555 0100''"
    by (simp add: row_cells_def or_string_def sample_empty_canonical_number_def)
  have d: "the (normalized_number sample_empty_canonical_number) = []"
    by (simp add: sample_empty_canonical_number_def)
  have e: "normalized_number sample_proto_number = None"
    by (simp add: sample_proto_number_def)
  have f: "NumbersTable [sample_valid_number, sample_proto_number] False
       = RenderFailed ObjectAsChild"
    by (simp add: NumbersTable_def sample_valid_row sample_proto_row)
  from a b c d e f show ?thesis by simp
qed

text \<open>
  C9, amended: when the table is not loading, has numbers, and none of them has the
  country code \<^verbatim>\<open>__proto__\<close>, it has one row per number, in order, and the number cell
  of a row shows the canonical form when it is non-null and not the empty string, and the
  raw text otherwise; a row whose normalization failed (canonical form null) is shown by
  its raw text and is not dropped.
\<close>

theorem NumbersTable_number_cell:
  assumes "\<not> is_loading" and "numbers \<noteq> []"
    and "\<forall>num \<in> set numbers. country_code num \<noteq> Some ''__proto__''"
  shows "\<exists>rows. NumbersTable numbers is_loading = Table rows
           \<and> length rows = length numbers
           \<and> (\<forall>i < length numbers.
                 row_key (rows ! i) = number_id (numbers ! i)
               \<and> (\<forall>s. normalized_number (numbers ! i) = Some s \<and> s \<noteq> []
                      \<longrightarrow> number_text (rows ! i) = s)
               \<and> (normalized_number (numbers ! i) = None
                      \<or> normalized_number (numbers ! i) = Some []
                    \<longrightarrow> number_text (rows ! i) = raw_number (numbers ! i)))"
proof -
  from assms(3) obtain rows where rows: "render_rows numbers = Inr rows"
    using render_rows_shown by blast
  with assms(1,2) have view: "NumbersTable numbers is_loading = Table rows"
    by (simp add: NumbersTable_def)
  from rows have len: "length rows = length numbers"
    and cells: "\<forall>i < length numbers. \<exists>shown. rows ! i = row_cells (numbers ! i) shown"
    using render_rows_cells by blast+
  have "row_key (rows ! i) = number_id (numbers ! i)
      \<and> (\<forall>s. normalized_number (numbers ! i) = Some s \<and> s \<noteq> []
             \<longrightarrow> number_text (rows ! i) = s)
      \<and> (normalized_number (numbers ! i) = None \<or> normalized_number (numbers ! i) = Some []
           \<longrightarrow> number_text (rows ! i) = raw_number (numbers ! i))"
    if "i < length numbers" for i
  proof -
    from cells that obtain shown where r: "rows ! i = row_cells (numbers ! i) shown" by blast
    have "row_key (rows ! i) = number_id (numbers ! i)"
      by (simp add: r row_cells_def)
    moreover have "\<forall>s. normalized_number (numbers ! i) = Some s \<and> s \<noteq> []
             \<longrightarrow> number_text (rows ! i) = s"
      by (simp add: r number_text_canonical)
    moreover have "normalized_number (numbers ! i) = None
          \<or> normalized_number (numbers ! i) = Some []
           \<longrightarrow> number_text (rows ! i) = raw_number (numbers ! i)"
      using number_text_raw [of "numbers ! i" shown] by (simp add: r)
    ultimately show ?thesis by blast
  qed
  with view len show ?thesis by blast
qed

theorem NumbersTable_number_cell_witness:
  "\<exists>rows. NumbersTable [sample_valid_number, sample_rejected_number] False = Table rows
     \<and> length rows = 2
     \<and> row_key (rows ! 0) = ''n1''
     \<and> number_text (rows ! 0) = ''+15551234567''
     \<and> row_key (rows ! 1) = ''n2''
     \<and> number_text (rows ! 1) = ''12-34-56-78''"
proof -
  let ?ns = "[sample_valid_number, sample_rejected_number]"
  have h1: "\<not> False" by simp
  have h2: "?ns \<noteq> []" by simp
  have h3: "\<forall>num \<in> set ?ns. country_code num \<noteq> Some ''__proto__''"
    by (simp add: sample_valid_number_def sample_rejected_number_def)
  from NumbersTable_number_cell [OF h1 h2 h3] obtain rows where
    view: "NumbersTable ?ns False = Table rows" and
    len: "length rows = length ?ns" and
    cells: "\<forall>i < length ?ns.
      row_key (rows ! i) = number_id (?ns ! i)
    \<and> (\<forall>s. normalized_number (?ns ! i) = Some s \<and> s \<noteq> []
           \<longrightarrow> number_text (rows ! i) = s)
    \<and> (normalized_number (?ns ! i) = None \<or> normalized_number (?ns ! i) = Some []
         \<longrightarrow> number_text (rows ! i) = raw_number (?ns ! i))"
    by blast
  from cells have r0: "row_key (rows ! 0) = number_id (?ns ! 0)
    \<and> (\<forall>s. normalized_number (?ns ! 0) = Some s \<and> s \<noteq> []
           \<longrightarrow> number_text (rows ! 0) = s)"
    by simp
  from cells have r1: "row_key (rows ! 1) = number_id (?ns ! 1)
    \<and> (normalized_number (?ns ! 1) = None \<or> normalized_number (?ns ! 1) = Some []
         \<longrightarrow> number_text (rows ! 1) = raw_number (?ns ! 1))"
    by simp
  from r0 have k0: "row_key (rows ! 0) = ''n1''" and c0: "number_text (rows ! 0) = ''+15551234567''"
    by (simp_all add: sample_valid_number_def)
  from r1 have k1: "row_key (rows ! 1) = ''n2''" and c1: "number_text (rows ! 1) = ''12-34-56-78''"
    by (simp_all add: sample_rejected_number_def)
  from view len k0 c0 k1 c1 show ?thesis by auto
qed

section \<open>Properties of the rows of the interface\<close>






section \<open>Properties of the import page\<close>

lemma handleImport_start_refuses:
  "selected_file st = None \<or> phoneColumn st = [] \<Longrightarrow> handleImport_start st = (st, [])"
  by (auto simp add: handleImport_start_def)

lemma handleImport_start_sends:
  assumes "selected_file st = Some f" and "phoneColumn st \<noteq> []"
  shows "snd (handleImport_start st) =
    [importZohoCsv_request f (phoneColumn st) (or_undefined (nameColumn st))
       (or_undefined (emailColumn st)) (or_undefined (companyColumn st))]"
  using assms by (simp add: handleImport_start_def)

lemma mapped_page_reached: "page (run mapped_trace initial_run) = mapped_page"
  by (simp add: mapped_trace_def initial_run_def initial_page_def mapped_page_def
      upload_zone_shown_def onDrop_start_def onDrop_answer_def sample_preview_def
      or_string_def Let_def)

lemma stale_page_reached: "page (run stale_trace initial_run) = stale_page"
  by (simp add: stale_trace_def initial_run_def initial_page_def stale_page_def
      upload_zone_shown_def mapping_card_shown_def result_card_shown_def onDrop_start_def
      onDrop_answer_def handleImport_start_def handleImport_answer_def resetForm_def
      sample_preview_def or_string_def Let_def)

text \<open>
  C6, as the claim states it: for every mapping with a phone column selected and name,
  email and company left unmapped, import proceeds. The page reaches a state in which
  the mapping card is shown with a phone column selected and the other three unmapped,
  and in which there is no file, because the file was reset before the preview arrived;
  there handleImport sends nothing.
\<close>

theorem handleImport_stale_page_counterexample:
  "page (run stale_trace initial_run) = stale_page
   \<and> mapping_card_shown stale_page
   \<and> phoneColumn stale_page = ''Mobile''
   \<and> nameColumn stale_page = [] \<and> emailColumn stale_page = []
   \<and> companyColumn stale_page = []
   \<and> handleImport_start stale_page = (stale_page, [])"
proof -
  have shown: "mapping_card_shown stale_page"
    by (simp add: mapping_card_shown_def stale_page_def)
  have cols: "phoneColumn stale_page = ''Mobile'' \<and> nameColumn stale_page = []
      \<and> emailColumn stale_page = [] \<and> companyColumn stale_page = []"
    by (simp add: stale_page_def)
  have "selected_file stale_page = None" by (simp add: stale_page_def)
  then have refused: "handleImport_start stale_page = (stale_page, [])"
    by (simp add: handleImport_start_refuses)
  from stale_page_reached shown cols refused show ?thesis by simp
qed

text \<open>
  C6, amended: the import runs only when a file and a phone column have been chosen, and
  it requires no other role. In every state of the page with no phone column chosen,
  handleImport sends nothing and leaves the page as it is; whenever it sends a request, a
  file and a phone column are chosen; and in every state with a file and a phone column
  chosen it sends exactly one request, for that file, with the chosen phone column,
  whatever the other three selects hold: with name, email and company left unmapped the
  request carries the phone column and nothing else.
\<close>

theorem handleImport_needs_file_and_phone:
  "(phoneColumn st = [] \<longrightarrow> handleImport_start st = (st, []))
   \<and> (snd (handleImport_start st) \<noteq> []
      \<longrightarrow> selected_file st \<noteq> None \<and> phoneColumn st \<noteq> [])
   \<and> (selected_file st = Some f \<and> phoneColumn st \<noteq> []
      \<longrightarrow> (\<exists>req. snd (handleImport_start st) = [req]
             \<and> request_file req = f
             \<and> hd (request_params req) = (''phone_column'', phoneColumn st)
             \<and> (nameColumn st = [] \<and> emailColumn st = [] \<and> companyColumn st = []
                \<longrightarrow> request_params req = [(''phone_column'', phoneColumn st)])))"
proof (intro conjI impI)
  assume "phoneColumn st = []"
  then show "handleImport_start st = (st, [])"
    by (simp add: handleImport_start_refuses)
next
  assume sent: "snd (handleImport_start st) \<noteq> []"
  show "selected_file st \<noteq> None"
    using sent by (auto simp add: handleImport_start_def split: if_splits)
  show "phoneColumn st \<noteq> []"
    using sent by (auto simp add: handleImport_start_def split: if_splits)
next
  assume a: "selected_file st = Some f \<and> phoneColumn st \<noteq> []"
  let ?req = "importZohoCsv_request f (phoneColumn st) (or_undefined (nameColumn st))
       (or_undefined (emailColumn st)) (or_undefined (companyColumn st))"
  from a have sent: "snd (handleImport_start st) = [?req]"
    by (simp add: handleImport_start_sends)
  have rf: "request_file ?req = f"
    by (simp add: importZohoCsv_request_def)
  have first: "hd (request_params ?req) = (''phone_column'', phoneColumn st)"
    by (simp add: importZohoCsv_request_def)
  have only: "nameColumn st = [] \<and> emailColumn st = [] \<and> companyColumn st = []
      \<longrightarrow> request_params ?req = [(''phone_column'', phoneColumn st)]"
    by (simp add: importZohoCsv_request_def or_undefined_def truthy_string_def)
  from sent rf first only
  show "\<exists>req. snd (handleImport_start st) = [req]
      \<and> request_file req = f
      \<and> hd (request_params req) = (''phone_column'', phoneColumn st)
      \<and> (nameColumn st = [] \<and> emailColumn st = [] \<and> companyColumn st = []
          \<longrightarrow> request_params req = [(''phone_column'', phoneColumn st)])"
    by blast
qed

theorem handleImport_needs_file_and_phone_witness:
  "phoneColumn initial_page = []
   \<and> handleImport_start initial_page = (initial_page, [])
   \<and> page (run mapped_trace initial_run) = mapped_page
   \<and> selected_file mapped_page = Some sample_file
   \<and> phoneColumn mapped_page = ''Mobile''
   \<and> snd (handleImport_start mapped_page)
       = [\<lparr> request_file = sample_file, request_params = [(''phone_column'', ''Mobile'')] \<rparr>]"
proof -
  have p0: "phoneColumn initial_page = []" by (simp add: initial_page_def)
  have sel: "selected_file mapped_page = Some sample_file" by (simp add: mapped_page_def)
  have phone: "phoneColumn mapped_page = ''Mobile''" by (simp add: mapped_page_def)
  have others: "nameColumn mapped_page = [] \<and> emailColumn mapped_page = []
      \<and> companyColumn mapped_page = []"
    by (simp add: mapped_page_def)
  note refuses = handleImport_needs_file_and_phone [of initial_page sample_file, THEN conjunct1,
    THEN mp, OF p0]
  from handleImport_needs_file_and_phone [of mapped_page sample_file] sel phone
  obtain req where
    sent: "snd (handleImport_start mapped_page) = [req]" and
    rf: "request_file req = sample_file" and
    only: "nameColumn mapped_page = [] \<and> emailColumn mapped_page = []
        \<and> companyColumn mapped_page = []
      \<longrightarrow> request_params req = [(''phone_column'', phoneColumn mapped_page)]"
    by auto
  from only others phone have "request_params req = [(''phone_column'', ''Mobile'')]"
    by simp
  with rf have "req = \<lparr> request_file = sample_file, request_params = [(''phone_column'', ''Mobile'')] \<rparr>"
    by simp
  with sent have one: "snd (handleImport_start mapped_page)
       = [\<lparr> request_file = sample_file, request_params = [(''phone_column'', ''Mobile'')] \<rparr>]"
    by simp
  show ?thesis
    by (intro conjI) (rule p0 refuses mapped_page_reached sel phone one)+
qed

section \<open>Properties of the contact import\<close>

lemma count_row_total: "total_rows (count_row out r) = Suc (total_rows r)"
  by (cases out) simp_all

lemma count_row_imported:
  "imported (count_row out r) = imported r + (if out = RowImported then 1 else 0)"
  by (cases out) simp_all

lemma count_row_skipped:
  "skipped (count_row out r) = skipped r + (if out = RowSkipped then 1 else 0)"
  by (cases out) simp_all

lemma count_row_duplicates:
  "duplicates (count_row out r) = duplicates r + (if out = RowDuplicate then 1 else 0)"
  by (cases out) simp_all

lemma count_row_invalid_phones:
  "invalid_phones (count_row out r) = invalid_phones r + (if out = RowInvalidPhone then 1 else 0)"
  by (cases out) simp_all

lemma length_row_outcomes:
  "length (row_outcomes parse_phone header mapping source_label now data_rows store)
   = length data_rows"
  by (induction data_rows arbitrary: store) simp_all

lemma import_rows_total:
  "total_rows (fst (import_rows parse_phone header mapping source_label now data_rows acc))
   = total_rows (fst acc) + length data_rows"
  by (induction data_rows arbitrary: acc) (simp_all add: count_row_total)

lemma import_rows_imported:
  "imported (fst (import_rows parse_phone header mapping source_label now data_rows acc))
   = imported (fst acc)
     + count_list (row_outcomes parse_phone header mapping source_label now data_rows (snd acc))
         RowImported"
  by (induction data_rows arbitrary: acc) (simp_all add: count_row_imported)

lemma import_rows_skipped:
  "skipped (fst (import_rows parse_phone header mapping source_label now data_rows acc))
   = skipped (fst acc)
     + count_list (row_outcomes parse_phone header mapping source_label now data_rows (snd acc))
         RowSkipped"
  by (induction data_rows arbitrary: acc) (simp_all add: count_row_skipped)

lemma import_rows_duplicates:
  "duplicates (fst (import_rows parse_phone header mapping source_label now data_rows acc))
   = duplicates (fst acc)
     + count_list (row_outcomes parse_phone header mapping source_label now data_rows (snd acc))
         RowDuplicate"
  by (induction data_rows arbitrary: acc) (simp_all add: count_row_duplicates)

lemma import_rows_invalid_phones:
  "invalid_phones (fst (import_rows parse_phone header mapping source_label now data_rows acc))
   = invalid_phones (fst acc)
     + count_list (row_outcomes parse_phone header mapping source_label now data_rows (snd acc))
         RowInvalidPhone"
  by (induction data_rows arbitrary: acc) (simp_all add: count_row_invalid_phones)

lemma outcome_counts:
  "count_list outs RowImported + count_list outs RowSkipped + count_list outs RowDuplicate
     + count_list outs RowInvalidPhone = length outs"
proof (induction outs)
  case Nil
  then show ?case by simp
next
  case (Cons out outs)
  then show ?case by (cases out) simp_all
qed

lemma sample_import:
  "fst (import_csv sample_parser [''Mobile'', ''Full Name''] sample_mapping ''zoho''
          ''2024-01-01'' sample_data_rows [])
   = \<lparr> total_rows = 5, imported = 1, skipped = 2, duplicates = 1, invalid_phones = 1 \<rparr>"
  by (simp add: import_csv_def sample_data_rows_def sample_mapping_def sample_parser_def
      no_rows_def classify_row_def store_row_def readable_def cell_def truthy_string_def
      has_key_def new_contact_def)

text \<open>
  C5. For every import run, over any header, mapping, source label, phone parser, data
  rows and contact store, the counters returned satisfy
  total_rows = imported + skipped + duplicates + invalid_phones. Every data row is counted
  in exactly one of the four categories: total_rows is the number of data rows, and each
  of the four counters is the number of rows with that outcome, where a row has one
  outcome (skipped when it is unreadable, invalid phone when its phone fails to
  normalize, duplicate when its normalized number and source label are in the store,
  imported otherwise).
\<close>

theorem import_counters_add_up:
  "total_rows (fst (import_csv parse_phone header mapping source_label now data_rows store))
   = imported (fst (import_csv parse_phone header mapping source_label now data_rows store))
     + skipped (fst (import_csv parse_phone header mapping source_label now data_rows store))
     + duplicates (fst (import_csv parse_phone header mapping source_label now data_rows store))
     + invalid_phones (fst (import_csv parse_phone header mapping source_label now data_rows store))
   \<and> total_rows (fst (import_csv parse_phone header mapping source_label now data_rows store))
     = length data_rows
   \<and> imported (fst (import_csv parse_phone header mapping source_label now data_rows store))
     = count_list (row_outcomes parse_phone header mapping source_label now data_rows store)
         RowImported
   \<and> skipped (fst (import_csv parse_phone header mapping source_label now data_rows store))
     = count_list (row_outcomes parse_phone header mapping source_label now data_rows store)
         RowSkipped
   \<and> duplicates (fst (import_csv parse_phone header mapping source_label now data_rows store))
     = count_list (row_outcomes parse_phone header mapping source_label now data_rows store)
         RowDuplicate
   \<and> invalid_phones (fst (import_csv parse_phone header mapping source_label now data_rows store))
     = count_list (row_outcomes parse_phone header mapping source_label now data_rows store)
         RowInvalidPhone"
proof -
  let ?r = "fst (import_rows parse_phone header mapping source_label now data_rows (no_rows, store))"
  let ?outs = "row_outcomes parse_phone header mapping source_label now data_rows store"
  have t: "total_rows ?r = length data_rows"
    using import_rows_total [of parse_phone header mapping source_label now data_rows "(no_rows, store)"]
    by (simp add: no_rows_def)
  have i: "imported ?r = count_list ?outs RowImported"
    using import_rows_imported [of parse_phone header mapping source_label now data_rows "(no_rows, store)"]
    by (simp add: no_rows_def)
  have s: "skipped ?r = count_list ?outs RowSkipped"
    using import_rows_skipped [of parse_phone header mapping source_label now data_rows "(no_rows, store)"]
    by (simp add: no_rows_def)
  have d: "duplicates ?r = count_list ?outs RowDuplicate"
    using import_rows_duplicates [of parse_phone header mapping source_label now data_rows "(no_rows, store)"]
    by (simp add: no_rows_def)
  have p: "invalid_phones ?r = count_list ?outs RowInvalidPhone"
    using import_rows_invalid_phones [of parse_phone header mapping source_label now data_rows "(no_rows, store)"]
    by (simp add: no_rows_def)
  have "imported ?r + skipped ?r + duplicates ?r + invalid_phones ?r = length ?outs"
    using outcome_counts [of ?outs] by (simp only: i s d p)
  then have sum: "total_rows ?r = imported ?r + skipped ?r + duplicates ?r + invalid_phones ?r"
    using t by (simp add: length_row_outcomes)
  from sum t i s d p show ?thesis by (simp only: import_csv_def)
qed

section \<open>Properties of the number store\<close>

lemma find_same_key_None:
  "find (same_key sid canonical) store = None \<Longrightarrow> (sid, canonical) \<notin> set (dedup_keys store)"
  by (auto simp add: find_None_iff dedup_keys_def dedup_key_def keyed_def same_key_def)

lemma dedup_insert_distinct:
  assumes "distinct (dedup_keys store)"
  shows "distinct (dedup_keys (snd (dedup_insert sid candidate store)))"
proof (cases "normalized_number candidate")
  case None
  then show ?thesis
    using assms by (simp add: dedup_insert_def Let_def dedup_keys_def keyed_def)
next
  case (Some canonical)
  show ?thesis
  proof (cases "find (same_key sid canonical) store")
    case None
    then have "(sid, canonical) \<notin> set (dedup_keys store)"
      by (rule find_same_key_None)
    with assms Some None show ?thesis
      by (simp add: dedup_insert_def Let_def dedup_keys_def keyed_def dedup_key_def)
  next
    case (Some existing)
    with assms \<open>normalized_number candidate = Some canonical\<close> show ?thesis
      by (simp add: dedup_insert_def Let_def)
  qed
qed

lemma delete_screenshot_distinct:
  "distinct (dedup_keys store) \<Longrightarrow> distinct (dedup_keys (delete_screenshot sid store))"
  unfolding dedup_keys_def delete_screenshot_def
  by (induction store) auto

lemma apply_op_distinct:
  "distinct (dedup_keys store) \<Longrightarrow> distinct (dedup_keys (apply_op op store))"
  by (cases op) (simp_all add: dedup_insert_distinct delete_screenshot_distinct)

lemma run_ops_distinct:
  "distinct (dedup_keys store) \<Longrightarrow> distinct (dedup_keys (run_ops ops store))"
  by (induction ops arbitrary: store) (simp_all add: apply_op_distinct)

lemma reached_distinct: "distinct (dedup_keys (reached ops))"
  unfolding reached_def by (rule run_ops_distinct) (simp add: dedup_keys_def)

lemma distinct_keys_pairwise:
  assumes "distinct (dedup_keys store)" and "i < j" and "j < length store"
    and "keyed (store ! i)" and "keyed (store ! j)"
  shows "dedup_key (store ! i) \<noteq> dedup_key (store ! j)"
  using assms
proof (induction store arbitrary: i j)
  case Nil
  then show ?case by simp
next
  case (Cons row store)
  from Cons.prems(2) obtain j' where j': "j = Suc j'" by (cases j) auto
  show ?case
  proof (cases i)
    case 0
    from Cons.prems(3,5) j' have "keyed (store ! j')" and "j' < length store" by simp_all
    then have "dedup_key (store ! j') \<in> set (dedup_keys store)"
      by (auto simp add: dedup_keys_def)
    moreover from Cons.prems(1,4) 0 have "dedup_key row \<notin> set (dedup_keys store)"
      by (simp add: dedup_keys_def)
    ultimately show ?thesis using 0 j' by auto
  next
    case (Suc i')
    from Cons.prems(1) have "distinct (dedup_keys store)"
      by (simp add: dedup_keys_def split: if_splits)
    with Cons.IH [of i' j'] Cons.prems Suc j' show ?thesis by simp
  qed
qed

lemma sample_reached:
  "reached sample_ops =
    [sample_valid_number, sample_second_number, sample_rejected_number,
     sample_rejected_number, sample_valid_number\<lparr> screenshot_id := Some ''s2'' \<rparr>]"
  by (simp add: reached_def sample_ops_def dedup_insert_def Let_def same_key_def
      sample_valid_number_def sample_second_number_def sample_rejected_number_def)

text \<open>
  C3. In every state the number store reaches from the empty store by extractions and
  screenshot deletions, two different rows that both have a canonical form and the same
  screenshot id do not have the same canonical form. A record with no canonical form is
  exempt: inserting it always adds a row, whatever the store holds.
\<close>

theorem dedup_invariant:
  "(i < j \<and> j < length (reached ops)
      \<and> screenshot_id (reached ops ! i) = Some sid
      \<and> screenshot_id (reached ops ! j) = Some sid
      \<and> normalized_number (reached ops ! i) \<noteq> None
      \<and> normalized_number (reached ops ! j) \<noteq> None
    \<longrightarrow> normalized_number (reached ops ! i) \<noteq> normalized_number (reached ops ! j))
   \<and> (normalized_number candidate = None
    \<longrightarrow> snd (dedup_insert sid candidate store)
          = store @ [candidate\<lparr> screenshot_id := Some sid \<rparr>])"
proof (intro conjI impI)
  assume a: "i < j \<and> j < length (reached ops)
      \<and> screenshot_id (reached ops ! i) = Some sid
      \<and> screenshot_id (reached ops ! j) = Some sid
      \<and> normalized_number (reached ops ! i) \<noteq> None
      \<and> normalized_number (reached ops ! j) \<noteq> None"
  then have "keyed (reached ops ! i)" and "keyed (reached ops ! j)"
    by (simp_all add: keyed_def)
  with a reached_distinct [of ops]
  have "dedup_key (reached ops ! i) \<noteq> dedup_key (reached ops ! j)"
    by (simp add: distinct_keys_pairwise)
  with a show "normalized_number (reached ops ! i) \<noteq> normalized_number (reached ops ! j)"
    by (auto simp add: dedup_key_def)
next
  assume "normalized_number candidate = None"
  then show "snd (dedup_insert sid candidate store) = store @ [candidate\<lparr> screenshot_id := Some sid \<rparr>]"
    by (simp add: dedup_insert_def Let_def)
qed

theorem dedup_invariant_witness:
  "length (reached sample_ops) = 5
   \<and> screenshot_id (reached sample_ops ! 0) = Some ''s1''
   \<and> screenshot_id (reached sample_ops ! 1) = Some ''s1''
   \<and> normalized_number (reached sample_ops ! 0) = Some ''+15551234567''
   \<and> normalized_number (reached sample_ops ! 1) = Some ''+442079460958''
   \<and> normalized_number (reached sample_ops ! 0) \<noteq> normalized_number (reached sample_ops ! 1)
   \<and> normalized_number sample_rejected_number = None
   \<and> snd (dedup_insert ''s1'' sample_rejected_number (reached sample_ops))
       = reached sample_ops @ [sample_rejected_number\<lparr> screenshot_id := Some ''s1'' \<rparr>]"
proof -
  let ?store = "reached sample_ops"
  have len: "length ?store = 5" by (simp add: sample_reached)
  have s0: "screenshot_id (?store ! 0) = Some ''s1''"
    by (simp add: sample_reached sample_valid_number_def)
  have s1: "screenshot_id (?store ! 1) = Some ''s1''"
    by (simp add: sample_reached sample_second_number_def sample_valid_number_def)
  have n0: "normalized_number (?store ! 0) = Some ''+15551234567''"
    by (simp add: sample_reached sample_valid_number_def)
  have n1: "normalized_number (?store ! 1) = Some ''+442079460958''"
    by (simp add: sample_reached sample_second_number_def)
  have rej: "normalized_number sample_rejected_number = None"
    by (simp add: sample_rejected_number_def)
  note inst = dedup_invariant [of 0 1 sample_ops "''s1''" sample_rejected_number ?store]
  from inst len s0 s1 n0 n1
  have diff: "normalized_number (?store ! 0) \<noteq> normalized_number (?store ! 1)"
    by simp
  from inst rej
  have kept: "snd (dedup_insert ''s1'' sample_rejected_number ?store)
       = ?store @ [sample_rejected_number\<lparr> screenshot_id := Some ''s1'' \<rparr>]"
    by blast
  from len s0 s1 n0 n1 diff rej kept show ?thesis by blast
qed

section \<open>Properties of the country groups\<close>






lemma observed_codes_append:
  "observed_codes (ns @ ms) = observed_codes ns @ observed_codes ms"
  by (simp add: observed_codes_def)















end
